theory Spec2Isabelle
  imports Main "HOL-Library.Sublist"
begin

section \<open>The mock HTTP server of \<^verbatim>\<open>bin/mock_server.py\<close>\<close>

text \<open>
  The server answers GET requests by an ordered chain of substring checks on the request
  path (\<^verbatim>\<open>MockHandler.do_GET\<close>), keeps one piece of shared state (the dictionary
  \<^verbatim>\<open>request_counts\<close>), and creates one fixture file at startup (\<^verbatim>\<open>main\<close>).
  Python strings and byte strings are lists of characters here; a \<^typ>\<open>char\<close> is one byte.
\<close>

subsection \<open>Python's string operations\<close>

type_synonym bytes = "char list"

text \<open>\<^verbatim>\<open>sub in s\<close>: \<^verbatim>\<open>sub\<close> occurs in \<^verbatim>\<open>s\<close> as a contiguous substring.\<close>

fun contains :: "string \<Rightarrow> string \<Rightarrow> bool" where
  "contains sub [] = (sub = [])"
| "contains sub (c # cs) = (prefix sub (c # cs) \<or> contains sub cs)"

text \<open>
  \<^verbatim>\<open>s.replace(old, new)\<close>: the occurrences of \<^verbatim>\<open>old\<close> are found from left to right
  and do not overlap; each is replaced by \<^verbatim>\<open>new\<close>. The scan for a non-empty
  \<^verbatim>\<open>old\<close> is \<open>replace_scan\<close>; an empty \<^verbatim>\<open>old\<close> matches before every character and
  at the end.
\<close>

function replace_scan :: "string \<Rightarrow> string \<Rightarrow> string \<Rightarrow> string" where
  "replace_scan old new [] = []"
| "replace_scan old new (c # cs) =
     (if old \<noteq> [] \<and> prefix old (c # cs)
      then new @ replace_scan old new (drop (length old) (c # cs))
      else c # replace_scan old new cs)"
  by pat_completeness auto
termination
  by (relation "measure (\<lambda>(old, new, s). length s)") auto

definition replace :: "string \<Rightarrow> string \<Rightarrow> string \<Rightarrow> string" where
  "replace s old new =
     (if old = [] then new @ concat (map (\<lambda>c. c # new) s) else replace_scan old new s)"

text \<open>\<^verbatim>\<open>a or b\<close> on strings: the empty string is false.\<close>

definition str_or :: "string \<Rightarrow> string \<Rightarrow> string" where
  "str_or a b = (if a = [] then b else a)"

text \<open>\<^verbatim>\<open>b * n\<close> on byte strings: \<^verbatim>\<open>n\<close> copies of \<^verbatim>\<open>b\<close>, one after the other.\<close>

definition bytes_times :: "bytes \<Rightarrow> nat \<Rightarrow> bytes" where
  "bytes_times b n = concat (replicate n b)"

text \<open>\<^verbatim>\<open>d.get(key, default)\<close> on a dictionary.\<close>

definition dict_get :: "('k \<rightharpoonup> 'v) \<Rightarrow> 'k \<Rightarrow> 'v \<Rightarrow> 'v" where
  "dict_get d key dflt = (case d key of None \<Rightarrow> dflt | Some v \<Rightarrow> v)"

subsection \<open>Replies, the log and the state\<close>

text \<open>
  What a handler sends. \<open>Error_page code message\<close> is what
  \<^verbatim>\<open>send_error(code, message)\<close> produces (the status line and the standard error
  page of the base class); \<open>Response code headers body\<close> is
  \<^verbatim>\<open>send_response(code)\<close>, the \<^verbatim>\<open>send_header\<close> calls in order, \<^verbatim>\<open>end_headers()\<close>
  and what is written to \<^verbatim>\<open>wfile\<close>. The headers that the base class adds to every
  response by itself (Server, Date) are not listed.
\<close>

datatype reply =
    Error_page int string
  | Response int "(string \<times> string) list" bytes


text \<open>
  The base class reports every response through \<^verbatim>\<open>self.log_message\<close>:
  \<^verbatim>\<open>send_error\<close> calls \<^verbatim>\<open>log_error\<close> and then \<^verbatim>\<open>send_response\<close>, which calls
  \<^verbatim>\<open>log_request\<close>. A log entry records which of the two asked for the line.
\<close>

datatype log_entry = Log_error int string | Log_request int

text \<open>
  The state a request can read or change: the process environment, the module's
  dictionary \<^verbatim>\<open>request_counts\<close>, the lines the base class's \<^verbatim>\<open>log_message\<close> has
  written, and the seconds spent in \<^verbatim>\<open>time.sleep\<close>.
\<close>

record state =
  environ :: "string \<rightharpoonup> string"
  request_counts :: "string \<rightharpoonup> int"
  stderr :: "log_entry list"
  clock :: nat

text \<open>Truth value of \<^verbatim>\<open>os.environ.get(name)\<close>: set, and not the empty string.\<close>

definition truthy :: "string option \<Rightarrow> bool" where
  "truthy v = (case v of None \<Rightarrow> False | Some x \<Rightarrow> x \<noteq> [])"

text \<open>\<^verbatim>\<open>MockHandler.log_message\<close>: the base class's logging runs only when DEBUG is set.\<close>

definition log_message :: "state \<Rightarrow> log_entry \<Rightarrow> state" where
  "log_message s e =
     (if truthy (environ s ''DEBUG'') then s\<lparr>stderr := stderr s @ [e]\<rparr> else s)"

definition send_response :: "state \<Rightarrow> int \<Rightarrow> state" where
  "send_response s code = log_message s (Log_request code)"

definition send_error :: "state \<Rightarrow> int \<Rightarrow> string \<Rightarrow> reply \<times> state" where
  "send_error s code message =
     (Error_page code message, send_response (log_message s (Log_error code message)) code)"

text \<open>The log lines of a reply that the base class produced by itself.\<close>

fun log_reply :: "state \<Rightarrow> reply \<Rightarrow> state" where
  "log_reply s (Error_page code message) = snd (send_error s code message)"
| "log_reply s (Response code headers body) = send_response s code"

text \<open>\<^verbatim>\<open>time.sleep(n)\<close>.\<close>

definition sleep :: "state \<Rightarrow> nat \<Rightarrow> state" where
  "sleep s n = s\<lparr>clock := clock s + n\<rparr>"

subsection \<open>The dispatcher\<close>

text \<open>
  Lines 61 to 72 of \<^verbatim>\<open>do_GET\<close>: the retry scenario. The result is either the reply
  of an early return (\<open>Inl\<close>), or the state and the value of \<^verbatim>\<open>self.path\<close> with which
  the method goes on (\<open>Inr\<close>). The local variable \<^verbatim>\<open>path\<close> is never assigned again.
\<close>

definition fail_then_ok :: "state \<Rightarrow> string \<Rightarrow> (reply \<times> state) + (state \<times> string)" where
  "fail_then_ok s path =
     (if contains ''/fail-then-ok'' path then
        (let count = dict_get (request_counts s) path 0 + 1;
             s1 = s\<lparr>request_counts := (request_counts s)(path \<mapsto> count)\<rparr>
         in if count < 3 then Inl (send_error s1 503 ''Service Temporarily Unavailable'')
            else Inr (s1, str_or (replace path ''/fail-then-ok'' '''') ''/''))
      else Inr (s, path))"

text \<open>
  \<^verbatim>\<open>MockHandler.do_GET\<close>. The parameter \<open>static\<close> is \<^verbatim>\<open>super().do_GET()\<close>, the
  static file server of the base class on the fixture directory: it answers the current
  value of \<^verbatim>\<open>self.path\<close>.
\<close>

definition do_GET :: "(string \<Rightarrow> reply) \<Rightarrow> state \<Rightarrow> string \<Rightarrow> reply \<times> state" where
  "do_GET static s path =
     (if contains ''/404'' path then send_error s 404 ''Not Found''
      else if contains ''/500'' path then send_error s 500 ''Internal Server Error''
      else if contains ''/slow'' path then
        (Response 200 [] [], send_response (sleep s 120) 200)
      else
        (case fail_then_ok s path of
           Inl early \<Rightarrow> early
         | Inr (s1, self_path) \<Rightarrow>
             if contains ''/wrong-checksum'' path then
               (Response 200 [(''Content-Type'', ''application/octet-stream'')]
                  (bytes_times ''wrong content '' 100000),
                send_response s1 200)
             else if contains ''/corrupted.zip'' path then
               (Response 200 [(''Content-Type'', ''application/zip'')]
                  ([CHR ''P'', CHR ''K'', CHR 0x03, CHR 0x04] @ bytes_times [CHR 0x00] 100),
                send_response s1 200)
             else if contains ''/small-file'' path then
               (Response 200 [(''Content-Type'', ''application/octet-stream'')] ''too small'',
                send_response s1 200)
             else (static self_path, log_reply s1 (static self_path))))"

text \<open>Requests handled one after the other, each on the state the one before left.\<close>

fun do_GETs :: "(string \<Rightarrow> reply) \<Rightarrow> state \<Rightarrow> string list \<Rightarrow> reply list \<times> state" where
  "do_GETs static s [] = ([], s)"
| "do_GETs static s (p # ps) =
     (let (r, s1) = do_GET static s p; (rs, s2) = do_GETs static s1 ps in (r # rs, s2))"

text \<open>
  The state when the module has been loaded: \<^verbatim>\<open>request_counts = {}\<close>, nothing logged,
  no time spent.
\<close>

definition initial_state :: "(string \<rightharpoonup> string) \<Rightarrow> state" where
  "initial_state env = \<lparr>environ = env, request_counts = Map.empty, stderr = [], clock = 0\<rparr>"

text \<open>
  An instance of the static file server for concrete examples: \<open>files\<close> gives the content
  of the regular files of the fixture directory by request path; a path with no file is
  answered by the base class's \<^verbatim>\<open>send_error(404, "File not found")\<close>.
\<close>

definition static_files :: "(string \<rightharpoonup> bytes) \<Rightarrow> string \<Rightarrow> reply" where
  "static_files files path =
     (case files path of
        None \<Rightarrow> Error_page 404 ''File not found''
      | Some content \<Rightarrow> Response 200 [(''Content-type'', ''application/octet-stream'')] content)"

subsection \<open>The handler class\<close>

text \<open>
  \<^verbatim>\<open>MockHandler\<close> defines \<^verbatim>\<open>do_GET\<close> (and \<^verbatim>\<open>log_message\<close>) and inherits every
  other method. The base class serves a request by looking up the attribute
  \<^verbatim>\<open>'do_' + command\<close> on the handler and calling it, or sending error 501 when there is
  none. A method table gives the \<^verbatim>\<open>do_*\<close> methods of a class by name.
\<close>

type_synonym do_method = "state \<Rightarrow> string \<Rightarrow> reply \<times> state"

text \<open>
  A method of the base class answers from the request path and the fixture directory; it
  has no access to \<^verbatim>\<open>request_counts\<close>. Run on a \<^verbatim>\<open>MockHandler\<close>, it logs through
  the overridden \<^verbatim>\<open>log_message\<close>.
\<close>

definition inherited :: "(string \<Rightarrow> reply) \<Rightarrow> do_method" where
  "inherited m s path = (m path, log_reply s (m path))"

text \<open>
  The table of the base class: its \<^verbatim>\<open>do_GET\<close> is \<open>static\<close>; \<open>others\<close> are the
  remaining \<^verbatim>\<open>do_*\<close> methods it has (\<^verbatim>\<open>do_HEAD\<close> for the standard library's class).
\<close>

definition SimpleHTTPRequestHandler ::
    "(string \<Rightarrow> reply) \<Rightarrow> (string \<rightharpoonup> (string \<Rightarrow> reply)) \<Rightarrow> (string \<rightharpoonup> do_method)" where
  "SimpleHTTPRequestHandler static others =
     map_option inherited \<circ> (others(''do_GET'' \<mapsto> static))"

text \<open>The table of \<^verbatim>\<open>MockHandler\<close>: the base class's, with \<^verbatim>\<open>do_GET\<close> overridden.\<close>

definition MockHandler ::
    "(string \<Rightarrow> reply) \<Rightarrow> (string \<rightharpoonup> (string \<Rightarrow> reply)) \<Rightarrow> (string \<rightharpoonup> do_method)" where
  "MockHandler static others =
     (SimpleHTTPRequestHandler static others)(''do_GET'' \<mapsto> do_GET static)"

text \<open>
  The message of the 501 page is \<^verbatim>\<open>"Unsupported method (%r)" % command\<close>; the command
  is printed between single quotes.
\<close>

definition handle_one_request ::
    "(string \<rightharpoonup> do_method) \<Rightarrow> state \<Rightarrow> string \<Rightarrow> string \<Rightarrow> reply \<times> state" where
  "handle_one_request methods s command path =
     (case methods (''do_'' @ command) of
        None \<Rightarrow>
          send_error s 501 (''Unsupported method ('' @ [CHR 0x27] @ command @ [CHR 0x27] @ '')'')
      | Some m \<Rightarrow> m s path)"

subsection \<open>The server loop\<close>

text \<open>
  \<^verbatim>\<open>ReusableTCPServer\<close> is \<^verbatim>\<open>socketserver.TCPServer\<close> with
  \<^verbatim>\<open>allow_reuse_address\<close> set, and nothing else: no threading or forking mix-in. Its
  \<^verbatim>\<open>serve_forever\<close> takes one connection at a time and runs the handler to its end
  before it accepts the next one. A connection is given by the second at which it
  arrives, the command and the path; the clock of the state is the current second, and
  waiting for a connection that has not arrived yet moves it forward to the arrival.
  Each reply is listed with the second at which its handler finished.
\<close>

record connection =
  arrival :: nat
  command :: string
  target :: string

fun serve_forever ::
    "(string \<rightharpoonup> do_method) \<Rightarrow> state \<Rightarrow> connection list \<Rightarrow> (reply \<times> nat) list \<times> state" where
  "serve_forever methods s [] = ([], s)"
| "serve_forever methods s (c # cs) =
     (let accepted = s\<lparr>clock := max (clock s) (arrival c)\<rparr>;
          (r, s1) = handle_one_request methods accepted (command c) (target c);
          (done, s2) = serve_forever methods s1 cs
      in ((r, clock s1) # done, s2))"

subsection \<open>Startup\<close>

text \<open>
  The file system: a path is the list of its components, and a node is a regular file
  with its content or a directory. The empty path stands for the directory from which
  relative paths start; it always exists.
\<close>

datatype node = File bytes | Dir

type_synonym path = "string list"

type_synonym filesystem = "path \<rightharpoonup> node"

datatype os_error = FileExistsError | FileNotFoundError | NotADirectoryError | IsADirectoryError

text \<open>\<^verbatim>\<open>os.path.exists\<close>.\<close>

definition exists :: "filesystem \<Rightarrow> path \<Rightarrow> bool" where
  "exists fs p = (p = [] \<or> fs p \<noteq> None)"

text \<open>\<^verbatim>\<open>os.path.join(directory, name)\<close> for a plain file name.\<close>

definition join :: "path \<Rightarrow> string \<Rightarrow> path" where
  "join directory name = directory @ [name]"

text \<open>
  \<^verbatim>\<open>os.makedirs(name, exist_ok=True)\<close>: every missing directory on the way to
  \<^verbatim>\<open>name\<close> is created, \<^verbatim>\<open>name\<close> itself last; directories that exist are kept. It
  raises when a component on the way is a regular file, and for the empty path.
  \<open>makedirs_from fs base rest\<close> has reached the directory \<open>base\<close> and still has to go
  through \<open>rest\<close>.
\<close>

fun makedirs_from :: "filesystem \<Rightarrow> path \<Rightarrow> string list \<Rightarrow> os_error + filesystem" where
  "makedirs_from fs base [] = Inr fs"
| "makedirs_from fs base (c # cs) =
     (case fs (base @ [c]) of
        None \<Rightarrow> makedirs_from (fs(base @ [c] \<mapsto> Dir)) (base @ [c]) cs
      | Some Dir \<Rightarrow> makedirs_from fs (base @ [c]) cs
      | Some (File content) \<Rightarrow> Inl (if cs = [] then FileExistsError else NotADirectoryError))"

definition makedirs :: "filesystem \<Rightarrow> path \<Rightarrow> os_error + filesystem" where
  "makedirs fs name = (if name = [] then Inl FileNotFoundError else makedirs_from fs [] name)"

text \<open>
  \<^verbatim>\<open>with open(p, "wb") as f: f.write(data)\<close>: the file is created or truncated and
  holds \<^verbatim>\<open>data\<close>; the directory it is in must exist.
\<close>

definition write_file :: "filesystem \<Rightarrow> path \<Rightarrow> bytes \<Rightarrow> os_error + filesystem" where
  "write_file fs p data =
     (if p = [] then Inl IsADirectoryError
      else if butlast p \<noteq> [] \<and> fs (butlast p) = None then Inl FileNotFoundError
      else if butlast p \<noteq> [] \<and> fs (butlast p) \<noteq> Some Dir then Inl NotADirectoryError
      else if fs p = Some Dir then Inl IsADirectoryError
      else Inr (fs(p \<mapsto> File data)))"

text \<open>
  Lines 108 to 115 of \<^verbatim>\<open>main\<close>, what it does to the file system before the server
  starts. \<open>FIXTURES_DIR\<close> is the module constant of that name. An exception ends the
  process.
\<close>

definition main :: "path \<Rightarrow> filesystem \<Rightarrow> os_error + filesystem" where
  "main FIXTURES_DIR fs =
     (case makedirs fs FIXTURES_DIR of
        Inl e \<Rightarrow> Inl e
      | Inr fs1 \<Rightarrow>
          (let mock_binary = join FIXTURES_DIR ''mock_binary''
           in if \<not> exists fs1 mock_binary
              then write_file fs1 mock_binary (bytes_times [CHR 0x00] (2 * 1024 * 1024))
              else Inr fs1))"

section \<open>Properties\<close>

subsection \<open>Logging changes nothing but the log\<close>

lemma log_message_frame [simp]:
  "environ (log_message s e) = environ s"
  "request_counts (log_message s e) = request_counts s"
  "clock (log_message s e) = clock s"
  by (simp_all add: log_message_def)

lemma send_response_frame [simp]:
  "environ (send_response s code) = environ s"
  "request_counts (send_response s code) = request_counts s"
  "clock (send_response s code) = clock s"
  by (simp_all add: send_response_def)

lemma send_error_frame [simp]:
  "fst (send_error s code message) = Error_page code message"
  "environ (snd (send_error s code message)) = environ s"
  "request_counts (snd (send_error s code message)) = request_counts s"
  "clock (snd (send_error s code message)) = clock s"
  by (simp_all add: send_error_def)

lemma log_reply_frame [simp]:
  "environ (log_reply s r) = environ s"
  "request_counts (log_reply s r) = request_counts s"
  "clock (log_reply s r) = clock s"
  by (cases r; simp)+

lemma sleep_frame [simp]:
  "environ (sleep s n) = environ s"
  "request_counts (sleep s n) = request_counts s"
  "clock (sleep s n) = clock s + n"
  by (simp_all add: sleep_def)

lemma length_bytes_times: "length (bytes_times b n) = n * length b"
  by (induction n) (simp_all add: bytes_times_def)

subsection \<open>The order of the checks\<close>



subsection \<open>The canned bodies\<close>

text \<open>
  C6. A GET whose path contains \<^verbatim>\<open>/wrong-checksum\<close> and matches none of the earlier
  checks (\<^verbatim>\<open>/404\<close>, \<^verbatim>\<open>/500\<close>, \<^verbatim>\<open>/slow\<close>, \<^verbatim>\<open>/fail-then-ok\<close>) is answered with
  status 200, content type \<^verbatim>\<open>application/octet-stream\<close> and a body of exactly
  1,400,000 bytes: 100,000 repetitions of the 14 bytes \<^verbatim>\<open>wrong content \<close>.
\<close>

theorem do_GET_wrong_checksum:
  assumes "contains ''/wrong-checksum'' path"
    and "\<not> contains ''/404'' path" and "\<not> contains ''/500'' path"
    and "\<not> contains ''/slow'' path" and "\<not> contains ''/fail-then-ok'' path"
  shows "fst (do_GET static s path)
           = Response 200 [(''Content-Type'', ''application/octet-stream'')]
               (concat (replicate 100000 ''wrong content ''))
       \<and> length (concat (replicate 100000 ''wrong content '')) = 1400000
       \<and> length ''wrong content '' = 14"
proof -
  have "fst (do_GET static s path)
          = Response 200 [(''Content-Type'', ''application/octet-stream'')]
              (bytes_times ''wrong content '' 100000)"
    using assms by (simp add: do_GET_def fail_then_ok_def)
  moreover have "length (bytes_times ''wrong content '' 100000) = 1400000"
    by (simp add: length_bytes_times)
  ultimately show ?thesis
    by (simp add: bytes_times_def)
qed

theorem do_GET_wrong_checksum_witness:
  "fst (do_GET (static_files Map.empty) (initial_state Map.empty) ''/v1/wrong-checksum'')
     = Response 200 [(''Content-Type'', ''application/octet-stream'')]
         (concat (replicate 100000 ''wrong content ''))
   \<and> length (concat (replicate 100000 ''wrong content '')) = 1400000"
proof -
  have h: "contains ''/wrong-checksum'' ''/v1/wrong-checksum''"
    "\<not> contains ''/404'' ''/v1/wrong-checksum''"
    "\<not> contains ''/500'' ''/v1/wrong-checksum''"
    "\<not> contains ''/slow'' ''/v1/wrong-checksum''"
    "\<not> contains ''/fail-then-ok'' ''/v1/wrong-checksum''"
    by simp_all
  show ?thesis
    using do_GET_wrong_checksum [OF h, of "static_files Map.empty" "initial_state Map.empty"]
    by blast
qed

text \<open>
  C7. A GET whose path contains \<^verbatim>\<open>/corrupted.zip\<close> and matches none of the earlier
  checks (\<^verbatim>\<open>/404\<close>, \<^verbatim>\<open>/500\<close>, \<^verbatim>\<open>/slow\<close>, \<^verbatim>\<open>/fail-then-ok\<close>,
  \<^verbatim>\<open>/wrong-checksum\<close>) is answered with status 200, content type
  \<^verbatim>\<open>application/zip\<close> and a body of exactly 104 bytes: the ZIP magic
  \<^verbatim>\<open>PK\x03\x04\<close> and then 100 zero bytes.
\<close>

theorem do_GET_corrupted_zip:
  assumes "contains ''/corrupted.zip'' path"
    and "\<not> contains ''/404'' path" and "\<not> contains ''/500'' path"
    and "\<not> contains ''/slow'' path" and "\<not> contains ''/fail-then-ok'' path"
    and "\<not> contains ''/wrong-checksum'' path"
  shows "fst (do_GET static s path)
           = Response 200 [(''Content-Type'', ''application/zip'')]
               ([CHR ''P'', CHR ''K'', CHR 0x03, CHR 0x04] @ replicate 100 (CHR 0x00))
       \<and> length ([CHR ''P'', CHR ''K'', CHR 0x03, CHR 0x04] @ replicate 100 (CHR 0x00)) = 104"
  using assms by (simp add: do_GET_def fail_then_ok_def bytes_times_def)

theorem do_GET_corrupted_zip_witness:
  "fst (do_GET (static_files Map.empty) (initial_state Map.empty) ''/release/corrupted.zip'')
     = Response 200 [(''Content-Type'', ''application/zip'')]
         ([CHR ''P'', CHR ''K'', CHR 0x03, CHR 0x04] @ replicate 100 (CHR 0x00))
   \<and> length ([CHR ''P'', CHR ''K'', CHR 0x03, CHR 0x04] @ replicate 100 (CHR 0x00)) = 104"
proof -
  have h: "contains ''/corrupted.zip'' ''/release/corrupted.zip''"
    "\<not> contains ''/404'' ''/release/corrupted.zip''"
    "\<not> contains ''/500'' ''/release/corrupted.zip''"
    "\<not> contains ''/slow'' ''/release/corrupted.zip''"
    "\<not> contains ''/fail-then-ok'' ''/release/corrupted.zip''"
    "\<not> contains ''/wrong-checksum'' ''/release/corrupted.zip''"
    by simp_all
  show ?thesis
    using do_GET_corrupted_zip [OF h, of "static_files Map.empty" "initial_state Map.empty"]
    by blast
qed

subsection \<open>The retry counters\<close>

text \<open>The table after one request: only the retry scenario writes, and only its own key.\<close>

lemma do_GET_request_counts:
  "request_counts (snd (do_GET static s path)) =
     (if contains ''/fail-then-ok'' path \<and> \<not> contains ''/404'' path
         \<and> \<not> contains ''/500'' path \<and> \<not> contains ''/slow'' path
      then (request_counts s)
             (path \<mapsto> dict_get (request_counts s) path 0 + 1)
      else request_counts s)"
  by (simp add: do_GET_def fail_then_ok_def Let_def)

lemma do_GET_other_key:
  "q \<noteq> path \<Longrightarrow> request_counts (snd (do_GET static s path)) q = request_counts s q"
  by (simp add: do_GET_request_counts)

text \<open>The reply to a path depends on the state only through that path's own counter.\<close>

lemma do_GET_reply_cong:
  "request_counts s path = request_counts s' path \<Longrightarrow>
   fst (do_GET static s path) = fst (do_GET static s' path)"
  by (simp add: do_GET_def fail_then_ok_def dict_get_def Let_def)

lemma do_GETs_other_key:
  "q \<noteq> path \<Longrightarrow>
   request_counts (snd (do_GETs static s (replicate n path))) q = request_counts s q"
proof (induction n arbitrary: s)
  case 0
  then show ?case by simp
next
  case (Suc n)
  obtain r s1 where step: "do_GET static s path = (r, s1)"
    by (cases "do_GET static s path")
  have "request_counts s1 q = request_counts s q"
    using do_GET_other_key [OF Suc.prems, of static s] step by simp
  moreover have "request_counts (snd (do_GETs static s1 (replicate n path))) q
                   = request_counts s1 q"
    using Suc.IH [OF Suc.prems] .
  ultimately show ?case
    using step by (simp add: split_beta)
qed

text \<open>
  C5. Two distinct paths have independent counters: a request to \<open>P1\<close> writes at most
  the entry of the exact string \<open>P1\<close> (its count plus one when the request reaches the
  retry scenario, nothing otherwise), so the entry of \<open>P2\<close> and of every other key is
  as before; and after any number of requests to \<open>P1\<close> a request to \<open>P2\<close> gets the
  reply it would have got without them.
\<close>

theorem request_counts_independent:
  assumes "P1 \<noteq> P2"
  shows "request_counts (snd (do_GET static s P1)) =
           (if contains ''/fail-then-ok'' P1 \<and> \<not> contains ''/404'' P1
               \<and> \<not> contains ''/500'' P1 \<and> \<not> contains ''/slow'' P1
            then (request_counts s)
                   (P1 \<mapsto> dict_get (request_counts s) P1 0 + 1)
            else request_counts s)
       \<and> request_counts (snd (do_GET static s P1)) P2 = request_counts s P2
       \<and> request_counts (snd (do_GETs static s (replicate n P1))) P2 = request_counts s P2
       \<and> fst (do_GET static (snd (do_GETs static s (replicate n P1))) P2)
           = fst (do_GET static s P2)"
proof -
  have neq: "P2 \<noteq> P1" using assms by simp
  have one: "request_counts (snd (do_GET static s P1)) P2 = request_counts s P2"
    by (rule do_GET_other_key [OF neq])
  have many: "request_counts (snd (do_GETs static s (replicate n P1))) P2 = request_counts s P2"
    by (rule do_GETs_other_key [OF neq])
  have "fst (do_GET static (snd (do_GETs static s (replicate n P1))) P2)
          = fst (do_GET static s P2)"
    by (rule do_GET_reply_cong [OF many])
  with one many show ?thesis
    by (simp only: do_GET_request_counts simp_thms)
qed

theorem request_counts_independent_witness:
  "''/fail-then-ok/a'' \<noteq> ''/fail-then-ok/b''
   \<and> request_counts (snd (do_GETs (static_files Map.empty) (initial_state Map.empty)
        (replicate 3 ''/fail-then-ok/a''))) ''/fail-then-ok/b'' = None
   \<and> fst (do_GET (static_files Map.empty)
        (snd (do_GETs (static_files Map.empty) (initial_state Map.empty)
           (replicate 3 ''/fail-then-ok/a''))) ''/fail-then-ok/b'')
       = Error_page 503 ''Service Temporarily Unavailable''"
proof -
  have h: "''/fail-then-ok/a'' \<noteq> ''/fail-then-ok/b''" by simp
  have r: "fst (do_GET (static_files Map.empty) (initial_state Map.empty) ''/fail-then-ok/b'')
             = Error_page 503 ''Service Temporarily Unavailable''"
    by (simp add: do_GET_def fail_then_ok_def dict_get_def initial_state_def)
  have e: "request_counts (initial_state Map.empty) ''/fail-then-ok/b'' = None"
    by (simp add: initial_state_def)
  show ?thesis
    using h r e
      request_counts_independent [OF h, of "static_files Map.empty" "initial_state Map.empty" 3]
    by simp
qed

subsection \<open>Fail twice, then go on\<close>








subsection \<open>What follows the third request\<close>

lemma replace_scan_no_occurrence:
  "\<not> contains old s \<Longrightarrow> replace_scan old new s = s"
  by (induction old new s rule: replace_scan.induct) simp_all

lemma replace_scan_at_occurrence:
  "old \<noteq> [] \<Longrightarrow> replace_scan old new (old @ rest) = new @ replace_scan old new rest"
  by (cases old) simp_all

text \<open>
  When \<^verbatim>\<open>/fail-then-ok\<close> is a prefix of the path and does not occur in the rest, the
  rewritten path is the rest, or \<^verbatim>\<open>/\<close> when the rest is empty.
\<close>

lemma rewritten_path_of_prefix:
  assumes "\<not> contains ''/fail-then-ok'' rest"
  shows "str_or (replace (''/fail-then-ok'' @ rest) ''/fail-then-ok'' []) ''/'' = str_or rest ''/''"
proof -
  have "replace_scan ''/fail-then-ok'' [] (''/fail-then-ok'' @ rest)
          = [] @ replace_scan ''/fail-then-ok'' [] rest"
    by (rule replace_scan_at_occurrence) simp
  then show ?thesis
    using replace_scan_no_occurrence [OF assms, of "[]"] by (simp add: replace_def)
qed

text \<open>
  \<^verbatim>\<open>replace\<close> removes every occurrence, wherever it stands: the prefix alone leaves
  the empty string, which \<^verbatim>\<open>or "/"\<close> turns into \<^verbatim>\<open>/\<close>; two occurrences are both
  removed; an occurrence in the middle is removed as well.
\<close>

lemma rewritten_path_examples:
  "str_or (replace ''/fail-then-ok'' ''/fail-then-ok'' []) ''/'' = ''/''"
  "str_or (replace ''/fail-then-ok/mock_binary'' ''/fail-then-ok'' []) ''/'' = ''/mock_binary''"
  "str_or (replace ''/fail-then-ok/a/fail-then-ok/b'' ''/fail-then-ok'' []) ''/'' = ''/a/b''"
  "str_or (replace ''/a/fail-then-ok/b'' ''/fail-then-ok'' []) ''/'' = ''/a/b''"
  by (simp_all add: replace_def str_or_def)

text \<open>
  From the third request on, a path of the retry scenario that names none of the later
  scenarios is answered by the static file server, asked for the rewritten path.
\<close>

lemma do_GET_third_request_static:
  assumes "contains ''/fail-then-ok'' P" and "\<not> contains ''/404'' P"
    and "\<not> contains ''/500'' P" and "\<not> contains ''/slow'' P"
    and "3 \<le> dict_get (request_counts s) P 0 + 1"
    and "\<not> contains ''/wrong-checksum'' P" and "\<not> contains ''/corrupted.zip'' P"
    and "\<not> contains ''/small-file'' P"
  shows "fst (do_GET static s P) = static (str_or (replace P ''/fail-then-ok'' []) ''/'')"
  using assms by (simp add: do_GET_def fail_then_ok_def Let_def)

lemma do_GET_third_request_static_example:
  "fst (do_GET (static_files [''/a/b'' \<mapsto> ''data''])
          ((initial_state Map.empty)\<lparr>request_counts := [''/fail-then-ok/a/fail-then-ok/b'' \<mapsto> 2]\<rparr>)
          ''/fail-then-ok/a/fail-then-ok/b'')
     = Response 200 [(''Content-type'', ''application/octet-stream'')] ''data''"
proof -
  have h: "contains ''/fail-then-ok'' ''/fail-then-ok/a/fail-then-ok/b''"
    "\<not> contains ''/404'' ''/fail-then-ok/a/fail-then-ok/b''"
    "\<not> contains ''/500'' ''/fail-then-ok/a/fail-then-ok/b''"
    "\<not> contains ''/slow'' ''/fail-then-ok/a/fail-then-ok/b''"
    "3 \<le> dict_get (request_counts
             ((initial_state Map.empty)
                \<lparr>request_counts := [''/fail-then-ok/a/fail-then-ok/b'' \<mapsto> 2]\<rparr>))
           ''/fail-then-ok/a/fail-then-ok/b'' 0 + 1"
    "\<not> contains ''/wrong-checksum'' ''/fail-then-ok/a/fail-then-ok/b''"
    "\<not> contains ''/corrupted.zip'' ''/fail-then-ok/a/fail-then-ok/b''"
    "\<not> contains ''/small-file'' ''/fail-then-ok/a/fail-then-ok/b''"
    by (simp_all add: dict_get_def)
  show ?thesis
    using do_GET_third_request_static [OF h, of "static_files [''/a/b'' \<mapsto> ''data'']"]
    by (simp add: rewritten_path_examples static_files_def)
qed

text \<open>
  C3 on the code. The third GET of \<^verbatim>\<open>/fail-then-ok/small-file\<close>, after two GETs of
  the same path on a fresh server with an empty fixture directory: the count after the
  increment is 3 and \<^verbatim>\<open>self.path\<close> becomes \<^verbatim>\<open>/small-file\<close>, but the method does
  not hand over to the static file server. The check at line 92 still looks at the
  original path and sends the canned 9 bytes with status 200, while the static file
  server, asked for the rewritten path, answers 404: the reply is not the one static
  file serving of the rewritten path produces.
\<close>

theorem fail_then_ok_third_request_canned:
  "contains ''/fail-then-ok'' ''/fail-then-ok/small-file''
   \<and> dict_get
       (request_counts
         (snd (do_GETs (static_files Map.empty) (initial_state Map.empty)
            [''/fail-then-ok/small-file'', ''/fail-then-ok/small-file''])))
       ''/fail-then-ok/small-file'' 0 + 1 = 3
   \<and> str_or (replace ''/fail-then-ok/small-file'' ''/fail-then-ok'' []) ''/'' = ''/small-file''
   \<and> fst (do_GET (static_files Map.empty)
          (snd (do_GETs (static_files Map.empty) (initial_state Map.empty)
             [''/fail-then-ok/small-file'', ''/fail-then-ok/small-file'']))
          ''/fail-then-ok/small-file'')
       = Response 200 [(''Content-Type'', ''application/octet-stream'')] ''too small''
   \<and> static_files Map.empty ''/small-file'' = Error_page 404 ''File not found''
   \<and> fst (do_GET (static_files Map.empty)
          (snd (do_GETs (static_files Map.empty) (initial_state Map.empty)
             [''/fail-then-ok/small-file'', ''/fail-then-ok/small-file'']))
          ''/fail-then-ok/small-file'')
       \<noteq> static_files Map.empty
           (str_or (replace ''/fail-then-ok/small-file'' ''/fail-then-ok'' []) ''/'')"
  by code_simp

subsection \<open>Startup and the fixture file\<close>

text \<open>\<^verbatim>\<open>makedirs\<close> writes only where nothing was, and only on the way to its target.\<close>

lemma makedirs_from_keeps:
  "makedirs_from fs base rest = Inr fs' \<Longrightarrow> fs q = Some n \<Longrightarrow> fs' q = Some n"
proof (induction rest arbitrary: fs base)
  case Nil
  then show ?case by simp
next
  case (Cons c cs)
  show ?case
  proof (cases "fs (base @ [c])")
    case None
    then have "makedirs_from (fs(base @ [c] \<mapsto> Dir)) (base @ [c]) cs = Inr fs'"
      using Cons.prems(1) by simp
    moreover have "(fs(base @ [c] \<mapsto> Dir)) q = Some n"
      using None Cons.prems(2) by auto
    ultimately show ?thesis by (rule Cons.IH)
  next
    case (Some m)
    then show ?thesis
      using Cons.prems Cons.IH [of fs "base @ [c]"] by (cases m) simp_all
  qed
qed

lemma makedirs_from_beyond:
  "makedirs_from fs base rest = Inr fs' \<Longrightarrow> length (base @ rest) < length p \<Longrightarrow> fs' p = fs p"
proof (induction rest arbitrary: fs base)
  case Nil
  then show ?case by simp
next
  case (Cons c cs)
  have far: "length ((base @ [c]) @ cs) < length p"
    using Cons.prems(2) by simp
  then have other: "p \<noteq> base @ [c]"
    by auto
  show ?case
  proof (cases "fs (base @ [c])")
    case None
    then have "makedirs_from (fs(base @ [c] \<mapsto> Dir)) (base @ [c]) cs = Inr fs'"
      using Cons.prems(1) by simp
    then have "fs' p = (fs(base @ [c] \<mapsto> Dir)) p"
      using far by (rule Cons.IH)
    then show ?thesis using other by simp
  next
    case (Some m)
    then show ?thesis
      using Cons.prems(1) far Cons.IH [of fs "base @ [c]"] by (cases m) simp_all
  qed
qed

lemma makedirs_from_target:
  "makedirs_from fs base rest = Inr fs' \<Longrightarrow> rest \<noteq> [] \<Longrightarrow> fs' (base @ rest) = Some Dir"
proof (induction rest arbitrary: fs base)
  case Nil
  then show ?case by simp
next
  case (Cons c cs)
  show ?case
  proof (cases "fs (base @ [c])")
    case None
    then have run: "makedirs_from (fs(base @ [c] \<mapsto> Dir)) (base @ [c]) cs = Inr fs'"
      using Cons.prems(1) by simp
    show ?thesis
    proof (cases "cs = []")
      case True
      then show ?thesis using run by auto
    next
      case False
      then show ?thesis using Cons.IH [OF run] by simp
    qed
  next
    case (Some m)
    show ?thesis
    proof (cases m)
      case (File content)
      then show ?thesis using Some Cons.prems(1) by simp
    next
      case Dir
      then have run: "makedirs_from fs (base @ [c]) cs = Inr fs'"
        using Some Cons.prems(1) by simp
      show ?thesis
      proof (cases "cs = []")
        case True
        then show ?thesis using run Some Dir by auto
      next
        case False
        then show ?thesis using Cons.IH [OF run] by simp
      qed
    qed
  qed
qed

text \<open>A second run finds every directory in place and changes nothing.\<close>

lemma makedirs_from_again:
  "makedirs_from fs base rest = Inr fs' \<Longrightarrow> makedirs_from fs' base rest = Inr fs'"
proof (induction rest arbitrary: fs base)
  case Nil
  then show ?case by simp
next
  case (Cons c cs)
  show ?case
  proof (cases "fs (base @ [c])")
    case None
    then have run: "makedirs_from (fs(base @ [c] \<mapsto> Dir)) (base @ [c]) cs = Inr fs'"
      using Cons.prems by simp
    have "fs' (base @ [c]) = Some Dir"
      by (rule makedirs_from_keeps [OF run]) simp
    then show ?thesis using Cons.IH [OF run] by simp
  next
    case (Some m)
    show ?thesis
    proof (cases m)
      case (File content)
      then show ?thesis using Some Cons.prems by simp
    next
      case Dir
      then have run: "makedirs_from fs (base @ [c]) cs = Inr fs'"
        using Some Cons.prems by simp
      have "fs' (base @ [c]) = Some Dir"
        by (rule makedirs_from_keeps [OF run]) (simp add: Some Dir)
      then show ?thesis using Cons.IH [OF run] by simp
    qed
  qed
qed

text \<open>A file beyond the target does not change what \<^verbatim>\<open>makedirs\<close> does.\<close>

lemma makedirs_from_with_file:
  "makedirs_from fs base rest = Inr fs' \<Longrightarrow> length (base @ rest) < length p \<Longrightarrow>
   makedirs_from (fs(p \<mapsto> n)) base rest = Inr (fs'(p \<mapsto> n))"
proof (induction rest arbitrary: fs base)
  case Nil
  then show ?case by simp
next
  case (Cons c cs)
  have far: "length ((base @ [c]) @ cs) < length p"
    using Cons.prems(2) by simp
  then have other: "base @ [c] \<noteq> p"
    by auto
  show ?case
  proof (cases "fs (base @ [c])")
    case None
    then have run: "makedirs_from (fs(base @ [c] \<mapsto> Dir)) (base @ [c]) cs = Inr fs'"
      using Cons.prems(1) by simp
    have moved: "makedirs_from ((fs(base @ [c] \<mapsto> Dir))(p \<mapsto> n)) (base @ [c]) cs = Inr (fs'(p \<mapsto> n))"
      using run far by (rule Cons.IH)
    have twist: "(fs(base @ [c] \<mapsto> Dir))(p \<mapsto> n) = (fs(p \<mapsto> n))(base @ [c] \<mapsto> Dir)"
      by (rule fun_upd_twist [OF other])
    have "makedirs_from (fs(p \<mapsto> n)) base (c # cs)
            = makedirs_from ((fs(p \<mapsto> n))(base @ [c] \<mapsto> Dir)) (base @ [c]) cs"
      using None other by simp
    then show ?thesis
      using moved by (simp only: twist)
  next
    case (Some m)
    show ?thesis
    proof (cases m)
      case (File content)
      then show ?thesis using Some Cons.prems(1) by simp
    next
      case Dir
      then have run: "makedirs_from fs (base @ [c]) cs = Inr fs'"
        using Some Cons.prems(1) by simp
      have moved: "makedirs_from (fs(p \<mapsto> n)) (base @ [c]) cs = Inr (fs'(p \<mapsto> n))"
        using run far by (rule Cons.IH)
      have "makedirs_from (fs(p \<mapsto> n)) base (c # cs)
              = makedirs_from (fs(p \<mapsto> n)) (base @ [c]) cs"
        using Some Dir other by simp
      then show ?thesis
        using moved by (simp only:)
    qed
  qed
qed

lemma bytes_times_single: "bytes_times [b] n = replicate n b"
  by (simp add: bytes_times_def)

text \<open>What \<^verbatim>\<open>main\<close> leaves on disk once the fixture directory has been made.\<close>

lemma main_after_makedirs:
  assumes "makedirs fs FIXTURES_DIR = Inr fs1"
  shows "main FIXTURES_DIR fs =
           Inr (if fs (join FIXTURES_DIR ''mock_binary'') = None
                then fs1(join FIXTURES_DIR ''mock_binary'' \<mapsto> File (replicate 2097152 (CHR 0x00)))
                else fs1)"
    and "fs1 (join FIXTURES_DIR ''mock_binary'') = fs (join FIXTURES_DIR ''mock_binary'')"
    and "fs1 FIXTURES_DIR = Some Dir"
proof -
  have nonempty: "FIXTURES_DIR \<noteq> []"
    using assms by (auto simp: makedirs_def)
  then have run: "makedirs_from fs [] FIXTURES_DIR = Inr fs1"
    using assms by (simp add: makedirs_def)
  show same: "fs1 (join FIXTURES_DIR ''mock_binary'') = fs (join FIXTURES_DIR ''mock_binary'')"
    using makedirs_from_beyond [OF run, of "join FIXTURES_DIR ''mock_binary''"]
    by (simp add: join_def)
  show dir: "fs1 FIXTURES_DIR = Some Dir"
    using makedirs_from_target [OF run nonempty] by simp
  show "main FIXTURES_DIR fs =
           Inr (if fs (join FIXTURES_DIR ''mock_binary'') = None
                then fs1(join FIXTURES_DIR ''mock_binary'' \<mapsto> File (replicate 2097152 (CHR 0x00)))
                else fs1)"
    using assms same dir nonempty
    by (simp add: main_def exists_def write_file_def bytes_times_single join_def Let_def)
qed

text \<open>
  C8. Where the fixture directory can be made, startup succeeds, and then: if nothing
  named \<^verbatim>\<open>mock_binary\<close> was in the fixture directory, the file is there afterwards
  with exactly 2,097,152 bytes, all zero; if something of that name was there, whatever
  its content or size, it is there unchanged. A second startup changes nothing at all.
\<close>

theorem main_mock_binary_once:
  assumes "makedirs fs FIXTURES_DIR = Inr fs1"
  shows "\<exists>fs'. main FIXTURES_DIR fs = Inr fs'
          \<and> fs' (join FIXTURES_DIR ''mock_binary'') =
              (case fs (join FIXTURES_DIR ''mock_binary'') of
                 None \<Rightarrow> Some (File (replicate 2097152 (CHR 0x00)))
               | Some present \<Rightarrow> Some present)
          \<and> length (replicate 2097152 (CHR 0x00)) = 2097152
          \<and> main FIXTURES_DIR fs' = Inr fs'"
proof (cases "fs (join FIXTURES_DIR ''mock_binary'')")
  case None
  define fs' where "fs' = fs1(join FIXTURES_DIR ''mock_binary'' \<mapsto> File (replicate 2097152 (CHR 0x00)))"
  have first: "main FIXTURES_DIR fs = Inr fs'"
    using main_after_makedirs(1) [OF assms] None by (simp add: fs'_def)
  have nonempty: "FIXTURES_DIR \<noteq> []"
    using assms by (auto simp: makedirs_def)
  then have run: "makedirs_from fs [] FIXTURES_DIR = Inr fs1"
    using assms by (simp add: makedirs_def)
  have "makedirs_from fs1 [] FIXTURES_DIR = Inr fs1"
    by (rule makedirs_from_again [OF run])
  then have "makedirs_from fs' [] FIXTURES_DIR = Inr fs'"
    unfolding fs'_def by (rule makedirs_from_with_file) (simp add: join_def)
  then have again: "makedirs fs' FIXTURES_DIR = Inr fs'"
    using nonempty by (simp add: makedirs_def)
  have "main FIXTURES_DIR fs' = Inr fs'"
    using main_after_makedirs(1) [OF again] by (simp add: fs'_def)
  with first None show ?thesis
    by (simp add: fs'_def)
next
  case (Some present)
  have first: "main FIXTURES_DIR fs = Inr fs1"
    using main_after_makedirs(1) [OF assms] Some by simp
  have kept: "fs1 (join FIXTURES_DIR ''mock_binary'') = Some present"
    using main_after_makedirs(2) [OF assms] Some by simp
  have nonempty: "FIXTURES_DIR \<noteq> []"
    using assms by (auto simp: makedirs_def)
  then have run: "makedirs_from fs [] FIXTURES_DIR = Inr fs1"
    using assms by (simp add: makedirs_def)
  have again: "makedirs fs1 FIXTURES_DIR = Inr fs1"
    using makedirs_from_again [OF run] nonempty by (simp add: makedirs_def)
  have "main FIXTURES_DIR fs1 = Inr fs1"
    using main_after_makedirs(1) [OF again] kept by simp
  with first kept Some show ?thesis
    by simp
qed

theorem main_mock_binary_once_witness:
  "(\<exists>fs'. main [''test_fixtures''] Map.empty = Inr fs'
      \<and> fs' [''test_fixtures'', ''mock_binary''] = Some (File (replicate 2097152 (CHR 0x00)))
      \<and> main [''test_fixtures''] fs' = Inr fs')
   \<and> (\<exists>fs'. main [''test_fixtures'']
          [[''test_fixtures''] \<mapsto> Dir, [''test_fixtures'', ''mock_binary''] \<mapsto> File ''old'']
          = Inr fs'
      \<and> fs' [''test_fixtures'', ''mock_binary''] = Some (File ''old'')
      \<and> main [''test_fixtures''] fs' = Inr fs')"
proof -
  have fresh: "makedirs Map.empty [''test_fixtures''] = Inr [[''test_fixtures''] \<mapsto> Dir]"
    by (simp add: makedirs_def)
  have present: "makedirs
      [[''test_fixtures''] \<mapsto> Dir, [''test_fixtures'', ''mock_binary''] \<mapsto> File ''old'']
      [''test_fixtures'']
    = Inr [[''test_fixtures''] \<mapsto> Dir, [''test_fixtures'', ''mock_binary''] \<mapsto> File ''old'']"
    by (simp add: makedirs_def)
  show ?thesis
    using main_mock_binary_once [OF fresh] main_mock_binary_once [OF present]
    by (simp add: join_def)
qed

subsection \<open>Other methods than GET\<close>

lemma inherited_frame [simp]:
  "fst (inherited m s path) = m path"
  "environ (snd (inherited m s path)) = environ s"
  "request_counts (snd (inherited m s path)) = request_counts s"
  "clock (snd (inherited m s path)) = clock s"
  by (simp_all add: inherited_def)

text \<open>
  C9. The dispatcher is the method \<^verbatim>\<open>do_GET\<close> and nothing else: a request with any
  other command, whatever its path contains, is handled exactly as the base class handles
  it (an inherited \<^verbatim>\<open>do_*\<close> method, or error 501 when the base class has none), and
  the retry counters are as before.
\<close>

theorem other_methods_inherited:
  assumes "cmd \<noteq> ''GET''"
  shows "handle_one_request (MockHandler static others) s cmd path
           = handle_one_request (SimpleHTTPRequestHandler static others) s cmd path
       \<and> request_counts (snd (handle_one_request (MockHandler static others) s cmd path))
           = request_counts s"
proof -
  have name: "''do_'' @ cmd \<noteq> ''do_GET''"
    using assms by simp
  then have same: "MockHandler static others (''do_'' @ cmd)
                     = SimpleHTTPRequestHandler static others (''do_'' @ cmd)"
    by (simp add: MockHandler_def)
  have "SimpleHTTPRequestHandler static others (''do_'' @ cmd)
          = map_option inherited (others (''do_'' @ cmd))"
    using name by (simp add: SimpleHTTPRequestHandler_def)
  then have "request_counts
               (snd (handle_one_request (SimpleHTTPRequestHandler static others) s cmd path))
             = request_counts s"
    by (cases "others (''do_'' @ cmd)") (simp_all add: handle_one_request_def)
  then show ?thesis
    using same by (simp add: handle_one_request_def)
qed

theorem other_methods_inherited_witness:
  "''HEAD'' \<noteq> ''GET'' \<and> ''POST'' \<noteq> ''GET''
   \<and> handle_one_request
        (MockHandler (static_files Map.empty) [''do_HEAD'' \<mapsto> (\<lambda>p. Response 200 [] [])])
        ((initial_state Map.empty)\<lparr>request_counts := [''/fail-then-ok'' \<mapsto> 1]\<rparr>)
        ''HEAD'' ''/404/fail-then-ok''
       = (Response 200 [] [],
          (initial_state Map.empty)\<lparr>request_counts := [''/fail-then-ok'' \<mapsto> 1]\<rparr>)
   \<and> fst (handle_one_request
        (MockHandler (static_files Map.empty) [''do_HEAD'' \<mapsto> (\<lambda>p. Response 200 [] [])])
        (initial_state Map.empty) ''POST'' ''/fail-then-ok'')
       = Error_page 501 ''Unsupported method ('POST')''
   \<and> request_counts (snd (handle_one_request
        (MockHandler (static_files Map.empty) [''do_HEAD'' \<mapsto> (\<lambda>p. Response 200 [] [])])
        (initial_state Map.empty) ''POST'' ''/fail-then-ok'')) = Map.empty"
proof -
  have h: "''HEAD'' \<noteq> ''GET''" "''POST'' \<noteq> ''GET''"
    by simp_all
  have base1: "handle_one_request
        (SimpleHTTPRequestHandler (static_files Map.empty)
           [''do_HEAD'' \<mapsto> (\<lambda>p. Response 200 [] [])])
        ((initial_state Map.empty)\<lparr>request_counts := [''/fail-then-ok'' \<mapsto> 1]\<rparr>)
        ''HEAD'' ''/404/fail-then-ok''
       = (Response 200 [] [],
          (initial_state Map.empty)\<lparr>request_counts := [''/fail-then-ok'' \<mapsto> 1]\<rparr>)"
    by (simp add: handle_one_request_def SimpleHTTPRequestHandler_def inherited_def
        send_response_def log_message_def truthy_def initial_state_def)
  have base2: "fst (handle_one_request
        (SimpleHTTPRequestHandler (static_files Map.empty)
           [''do_HEAD'' \<mapsto> (\<lambda>p. Response 200 [] [])])
        (initial_state Map.empty) ''POST'' ''/fail-then-ok'')
       = Error_page 501 ''Unsupported method ('POST')''"
    by (simp add: handle_one_request_def SimpleHTTPRequestHandler_def)
  note head = other_methods_inherited [OF h(1), of "static_files Map.empty"
        "[''do_HEAD'' \<mapsto> (\<lambda>p. Response 200 [] [])]"
        "(initial_state Map.empty)\<lparr>request_counts := [''/fail-then-ok'' \<mapsto> 1]\<rparr>"
        "''/404/fail-then-ok''"]
  note post = other_methods_inherited [OF h(2), of "static_files Map.empty"
        "[''do_HEAD'' \<mapsto> (\<lambda>p. Response 200 [] [])]"
        "initial_state Map.empty" "''/fail-then-ok''"]
  have counts: "request_counts (initial_state Map.empty) = Map.empty"
    by (simp add: initial_state_def)
  show ?thesis
    using h base1 base2 conjunct1 [OF head] conjunct1 [OF post] conjunct2 [OF post] counts
    by (simp only: simp_thms)
qed

subsection \<open>The debug toggle\<close>

lemma do_GET_clock:
  "clock (snd (do_GET static s path)) =
     (if \<not> contains ''/404'' path \<and> \<not> contains ''/500'' path \<and> contains ''/slow'' path
      then clock s + 120 else clock s)"
  by (simp add: do_GET_def fail_then_ok_def Let_def split: sum.split)

lemma do_GET_environ_reply:
  "fst (do_GET static (s\<lparr>environ := env\<rparr>) path) = fst (do_GET static s path)"
  by (rule do_GET_reply_cong) simp

lemma handle_one_request_environ:
  "fst (handle_one_request (MockHandler static others) (s\<lparr>environ := env\<rparr>) cmd path)
     = fst (handle_one_request (MockHandler static others) s cmd path)"
  "request_counts
     (snd (handle_one_request (MockHandler static others) (s\<lparr>environ := env\<rparr>) cmd path))
     = request_counts (snd (handle_one_request (MockHandler static others) s cmd path))"
  "clock (snd (handle_one_request (MockHandler static others) (s\<lparr>environ := env\<rparr>) cmd path))
     = clock (snd (handle_one_request (MockHandler static others) s cmd path))"
proof -
  show "fst (handle_one_request (MockHandler static others) (s\<lparr>environ := env\<rparr>) cmd path)
     = fst (handle_one_request (MockHandler static others) s cmd path)"
  proof (cases "cmd = ''GET''")
    case True
    then show ?thesis
      by (simp add: handle_one_request_def MockHandler_def do_GET_environ_reply)
  next
    case False
    then show ?thesis
      by (cases "others (''do_'' @ cmd)")
        (simp_all add: handle_one_request_def MockHandler_def SimpleHTTPRequestHandler_def)
  qed
  show "request_counts
     (snd (handle_one_request (MockHandler static others) (s\<lparr>environ := env\<rparr>) cmd path))
     = request_counts (snd (handle_one_request (MockHandler static others) s cmd path))"
  proof (cases "cmd = ''GET''")
    case True
    then show ?thesis
      by (simp add: handle_one_request_def MockHandler_def do_GET_request_counts)
  next
    case False
    then show ?thesis
      by (cases "others (''do_'' @ cmd)")
        (simp_all add: handle_one_request_def MockHandler_def SimpleHTTPRequestHandler_def)
  qed
  show "clock (snd (handle_one_request (MockHandler static others) (s\<lparr>environ := env\<rparr>) cmd path))
     = clock (snd (handle_one_request (MockHandler static others) s cmd path))"
  proof (cases "cmd = ''GET''")
    case True
    then show ?thesis
      by (simp add: handle_one_request_def MockHandler_def do_GET_clock)
  next
    case False
    then show ?thesis
      by (cases "others (''do_'' @ cmd)")
        (simp_all add: handle_one_request_def MockHandler_def SimpleHTTPRequestHandler_def)
  qed
qed

text \<open>What each logging step of the base class writes, by the value of DEBUG.\<close>

lemma truthy_iff: "truthy v = (\<not> (v = None \<or> v = Some []))"
  by (cases v) (simp_all add: truthy_def)

lemma log_message_stderr:
  "stderr (log_message s e) =
     (if environ s ''DEBUG'' = None \<or> environ s ''DEBUG'' = Some [] then stderr s
      else stderr s @ [e])"
  by (simp add: log_message_def truthy_iff)

lemma send_response_stderr:
  "stderr (send_response s code) =
     (if environ s ''DEBUG'' = None \<or> environ s ''DEBUG'' = Some [] then stderr s
      else stderr s @ [Log_request code])"
  by (simp add: send_response_def log_message_stderr)

lemma send_error_stderr:
  "stderr (snd (send_error s code message)) =
     (if environ s ''DEBUG'' = None \<or> environ s ''DEBUG'' = Some [] then stderr s
      else stderr s @ [Log_error code message, Log_request code])"
  by (simp add: send_error_def send_response_stderr log_message_stderr)

lemma log_reply_stderr:
  "stderr (log_reply s r) =
     (if environ s ''DEBUG'' = None \<or> environ s ''DEBUG'' = Some [] then stderr s
      else stderr s @
        (case r of
           Error_page code message \<Rightarrow> [Log_error code message, Log_request code]
         | Response code headers body \<Rightarrow> [Log_request code]))"
  by (cases r) (simp_all add: send_error_stderr send_response_stderr)

lemma sleep_stderr [simp]: "stderr (sleep s n) = stderr s"
  by (simp add: sleep_def)

lemma do_GET_environ [simp]: "environ (snd (do_GET static s path)) = environ s"
  by (simp add: do_GET_def fail_then_ok_def Let_def split: sum.split)

text \<open>A GET writes the log lines of its reply when DEBUG is set, and nothing otherwise.\<close>

lemma do_GET_stderr:
  "stderr (snd (do_GET static s path)) =
     (if environ s ''DEBUG'' = None \<or> environ s ''DEBUG'' = Some [] then stderr s
      else stderr s @
        (case fst (do_GET static s path) of
           Error_page code message \<Rightarrow> [Log_error code message, Log_request code]
         | Response code headers body \<Rightarrow> [Log_request code]))"
  by (simp add: do_GET_def fail_then_ok_def Let_def send_error_stderr send_response_stderr
      log_reply_stderr)

lemma handle_one_request_environ_kept:
  "environ (snd (handle_one_request (MockHandler static others) s cmd path)) = environ s"
proof (cases "cmd = ''GET''")
  case True
  then show ?thesis
    by (simp add: handle_one_request_def MockHandler_def)
next
  case False
  then show ?thesis
    by (cases "others (''do_'' @ cmd)")
      (simp_all add: handle_one_request_def MockHandler_def SimpleHTTPRequestHandler_def)
qed

lemma handle_one_request_stderr:
  "stderr (snd (handle_one_request (MockHandler static others) s cmd path)) =
     (if environ s ''DEBUG'' = None \<or> environ s ''DEBUG'' = Some [] then stderr s
      else stderr s @
        (case fst (handle_one_request (MockHandler static others) s cmd path) of
           Error_page code message \<Rightarrow> [Log_error code message, Log_request code]
         | Response code headers body \<Rightarrow> [Log_request code]))"
proof (cases "cmd = ''GET''")
  case True
  then show ?thesis
    by (simp add: handle_one_request_def MockHandler_def do_GET_stderr)
next
  case False
  then show ?thesis
    by (cases "others (''do_'' @ cmd)")
      (simp_all add: handle_one_request_def MockHandler_def SimpleHTTPRequestHandler_def
        send_error_stderr inherited_def log_reply_stderr)
qed

text \<open>The whole run of the server: the log is the lines of the replies, in order, or empty.\<close>

lemma serve_forever_stderr:
  "stderr (snd (serve_forever (MockHandler static others) s cs)) =
     (if environ s ''DEBUG'' = None \<or> environ s ''DEBUG'' = Some [] then stderr s
      else stderr s @
        concat (map (\<lambda>(r, finished).
                  case r of
                    Error_page code message \<Rightarrow> [Log_error code message, Log_request code]
                  | Response code headers body \<Rightarrow> [Log_request code])
                (fst (serve_forever (MockHandler static others) s cs))))"
proof (induction cs arbitrary: s)
  case Nil
  then show ?case by simp
next
  case (Cons c cs)
  define accepted where "accepted = s\<lparr>clock := max (clock s) (arrival c)\<rparr>"
  obtain r s1 where step:
    "handle_one_request (MockHandler static others) accepted (command c) (target c) = (r, s1)"
    by (cases "handle_one_request (MockHandler static others) accepted (command c) (target c)")
  have "environ (snd (handle_one_request (MockHandler static others) accepted
                        (command c) (target c))) = environ accepted"
    by (rule handle_one_request_environ_kept)
  then have env: "environ s1 = environ s"
    unfolding step by (simp add: accepted_def)
  have one: "stderr s1 =
     (if environ s ''DEBUG'' = None \<or> environ s ''DEBUG'' = Some [] then stderr s
      else stderr s @
        (case r of
           Error_page code message \<Rightarrow> [Log_error code message, Log_request code]
         | Response code headers body \<Rightarrow> [Log_request code]))"
    using handle_one_request_stderr [where static = static and others = others
        and s = accepted and cmd = "command c" and path = "target c"]
    unfolding step by (simp add: accepted_def)
  have unfold: "serve_forever (MockHandler static others) s (c # cs) =
      ((r, clock s1) # fst (serve_forever (MockHandler static others) s1 cs),
       snd (serve_forever (MockHandler static others) s1 cs))"
    using step by (simp add: accepted_def split_beta)
  show ?case
    unfolding unfold using Cons.IH [of s1] env one by simp
qed

text \<open>
  C10. Whether a line is logged is decided, at the moment of logging, by the value of
  DEBUG in the environment alone: unset or the empty string, nothing is written and the
  server is silent for every request; any other value (also \<^verbatim>\<open>0\<close> or
  \<^verbatim>\<open>false\<close>), every request writes the log lines of its reply (the error line and
  the request line for an error page, the request line for any other response), and the
  log of a whole run is these lines in the order of the replies. The environment has no
  part in the reply to a request, in the retry counters or in the time the request takes.
\<close>

theorem debug_toggle:
  "log_message s e =
     (if environ s ''DEBUG'' = None \<or> environ s ''DEBUG'' = Some [] then s
      else s\<lparr>stderr := stderr s @ [e]\<rparr>)
   \<and> stderr (snd (handle_one_request (MockHandler static others) s cmd path)) =
       (if environ s ''DEBUG'' = None \<or> environ s ''DEBUG'' = Some [] then stderr s
        else stderr s @
          (case fst (handle_one_request (MockHandler static others) s cmd path) of
             Error_page code message \<Rightarrow> [Log_error code message, Log_request code]
           | Response code headers body \<Rightarrow> [Log_request code]))
   \<and> stderr (snd (serve_forever (MockHandler static others) s cs)) =
       (if environ s ''DEBUG'' = None \<or> environ s ''DEBUG'' = Some [] then stderr s
        else stderr s @
          concat (map (\<lambda>(r, finished).
                    case r of
                      Error_page code message \<Rightarrow> [Log_error code message, Log_request code]
                    | Response code headers body \<Rightarrow> [Log_request code])
                  (fst (serve_forever (MockHandler static others) s cs))))
   \<and> fst (handle_one_request (MockHandler static others) (s\<lparr>environ := env\<rparr>) cmd path)
       = fst (handle_one_request (MockHandler static others) s cmd path)
   \<and> request_counts
       (snd (handle_one_request (MockHandler static others) (s\<lparr>environ := env\<rparr>) cmd path))
       = request_counts (snd (handle_one_request (MockHandler static others) s cmd path))
   \<and> clock (snd (handle_one_request (MockHandler static others) (s\<lparr>environ := env\<rparr>) cmd path))
       = clock (snd (handle_one_request (MockHandler static others) s cmd path))"
proof -
  have toggle: "log_message s e =
     (if environ s ''DEBUG'' = None \<or> environ s ''DEBUG'' = Some [] then s
      else s\<lparr>stderr := stderr s @ [e]\<rparr>)"
    by (simp add: log_message_def truthy_iff)
  show ?thesis
    by (intro conjI)
      (rule toggle handle_one_request_stderr serve_forever_stderr handle_one_request_environ)+
qed

theorem debug_toggle_witness:
  "stderr (snd (handle_one_request (MockHandler (static_files Map.empty) Map.empty)
       (initial_state [''DEBUG'' \<mapsto> ''0'']) ''GET'' ''/500''))
     = [Log_error 500 ''Internal Server Error'', Log_request 500]
   \<and> stderr (snd (handle_one_request (MockHandler (static_files Map.empty) Map.empty)
       (initial_state [''DEBUG'' \<mapsto> ''false'']) ''GET'' ''/small-file''))
     = [Log_request 200]
   \<and> stderr (snd (handle_one_request (MockHandler (static_files Map.empty) Map.empty)
       (initial_state [''DEBUG'' \<mapsto> '''']) ''GET'' ''/500'')) = []
   \<and> stderr (snd (handle_one_request (MockHandler (static_files Map.empty) Map.empty)
       (initial_state Map.empty) ''GET'' ''/500'')) = []
   \<and> stderr (snd (serve_forever (MockHandler (static_files Map.empty) Map.empty)
       (initial_state [''DEBUG'' \<mapsto> ''1''])
       [\<lparr>arrival = 0, command = ''GET'', target = ''/404''\<rparr>,
        \<lparr>arrival = 0, command = ''GET'', target = ''/small-file''\<rparr>]))
     = [Log_error 404 ''Not Found'', Log_request 404, Log_request 200]
   \<and> fst (handle_one_request (MockHandler (static_files Map.empty) Map.empty)
        ((initial_state Map.empty)\<lparr>environ := [''DEBUG'' \<mapsto> ''1'']\<rparr>) ''GET'' ''/500'')
       = Error_page 500 ''Internal Server Error''"
proof -
  have r500: "\<And>env. fst (handle_one_request (MockHandler (static_files Map.empty) Map.empty)
        (initial_state env) ''GET'' ''/500'') = Error_page 500 ''Internal Server Error''"
    by (simp add: handle_one_request_def MockHandler_def do_GET_def)
  have rsmall: "fst (handle_one_request (MockHandler (static_files Map.empty) Map.empty)
        (initial_state [''DEBUG'' \<mapsto> ''false'']) ''GET'' ''/small-file'')
      = Response 200 [(''Content-Type'', ''application/octet-stream'')] ''too small''"
    by (simp add: handle_one_request_def MockHandler_def do_GET_def fail_then_ok_def)
  have run: "map fst (fst (serve_forever (MockHandler (static_files Map.empty) Map.empty)
       (initial_state [''DEBUG'' \<mapsto> ''1''])
       [\<lparr>arrival = 0, command = ''GET'', target = ''/404''\<rparr>,
        \<lparr>arrival = 0, command = ''GET'', target = ''/small-file''\<rparr>]))
     = [Error_page 404 ''Not Found'',
        Response 200 [(''Content-Type'', ''application/octet-stream'')] ''too small'']"
    by (simp add: handle_one_request_def MockHandler_def do_GET_def fail_then_ok_def
        split_beta Let_def)
  note zero = debug_toggle [where s = "initial_state [''DEBUG'' \<mapsto> ''0'']" and e = "Log_request 200"
        and static = "static_files Map.empty" and others = Map.empty and cmd = "''GET''" and path = "''/500''"
        and cs = "[]"
        and env = "[''DEBUG'' \<mapsto> ''1'']"]
  note false = debug_toggle [where s = "initial_state [''DEBUG'' \<mapsto> ''false'']" and e = "Log_request 200"
        and static = "static_files Map.empty" and others = Map.empty and cmd = "''GET''" and path = "''/small-file''"
        and cs = "[]"
        and env = "[''DEBUG'' \<mapsto> ''1'']"]
  note blank = debug_toggle [where s = "initial_state [''DEBUG'' \<mapsto> '''']" and e = "Log_request 200"
        and static = "static_files Map.empty" and others = Map.empty and cmd = "''GET''" and path = "''/500''"
        and cs = "[]"
        and env = "[''DEBUG'' \<mapsto> ''1'']"]
  note unset = debug_toggle [where s = "initial_state Map.empty" and e = "Log_request 200"
        and static = "static_files Map.empty" and others = Map.empty and cmd = "''GET''" and path = "''/500''"
        and cs = "[\<lparr>arrival = 0, command = ''GET'', target = ''/404''\<rparr>,
          \<lparr>arrival = 0, command = ''GET'', target = ''/small-file''\<rparr>]"
        and env = "[''DEBUG'' \<mapsto> ''1'']"]
  note both = debug_toggle [where s = "initial_state [''DEBUG'' \<mapsto> ''1'']" and e = "Log_request 200"
        and static = "static_files Map.empty" and others = Map.empty and cmd = "''GET''" and path = "''/500''"
        and cs = "[\<lparr>arrival = 0, command = ''GET'', target = ''/404''\<rparr>,
          \<lparr>arrival = 0, command = ''GET'', target = ''/small-file''\<rparr>]"
        and env = "[''DEBUG'' \<mapsto> ''1'']"]
  have a: "stderr (snd (handle_one_request (MockHandler (static_files Map.empty) Map.empty)
       (initial_state [''DEBUG'' \<mapsto> ''0'']) ''GET'' ''/500''))
     = [Log_error 500 ''Internal Server Error'', Log_request 500]"
    using zero r500 by (simp add: initial_state_def)
  have b: "stderr (snd (handle_one_request (MockHandler (static_files Map.empty) Map.empty)
       (initial_state [''DEBUG'' \<mapsto> ''false'']) ''GET'' ''/small-file''))
     = [Log_request 200]"
    using false rsmall by (simp add: initial_state_def)
  have c: "stderr (snd (handle_one_request (MockHandler (static_files Map.empty) Map.empty)
       (initial_state [''DEBUG'' \<mapsto> '''']) ''GET'' ''/500'')) = []"
    using blank by (simp add: initial_state_def)
  have d: "stderr (snd (handle_one_request (MockHandler (static_files Map.empty) Map.empty)
       (initial_state Map.empty) ''GET'' ''/500'')) = []"
    using unset by (simp add: initial_state_def)
  have e: "stderr (snd (serve_forever (MockHandler (static_files Map.empty) Map.empty)
       (initial_state [''DEBUG'' \<mapsto> ''1''])
       [\<lparr>arrival = 0, command = ''GET'', target = ''/404''\<rparr>,
        \<lparr>arrival = 0, command = ''GET'', target = ''/small-file''\<rparr>]))
     = [Log_error 404 ''Not Found'', Log_request 404, Log_request 200]"
  proof -
    have gen: "concat (map (\<lambda>(r, finished). F r) xs) = concat (map F (map fst xs))"
      for F :: "reply \<Rightarrow> log_entry list" and xs :: "(reply \<times> nat) list"
      by (simp add: case_prod_beta' comp_def)
    show ?thesis
      using both [THEN conjunct2, THEN conjunct2, THEN conjunct1]
      unfolding gen run
      by (simp add: initial_state_def del: serve_forever.simps)
  qed
  have f: "fst (handle_one_request (MockHandler (static_files Map.empty) Map.empty)
        ((initial_state Map.empty)\<lparr>environ := [''DEBUG'' \<mapsto> ''1'']\<rparr>) ''GET'' ''/500'')
       = Error_page 500 ''Internal Server Error''"
    using unset r500 [of Map.empty] by simp
  show ?thesis
    using a b c d e f by (simp only: simp_thms)
qed

subsection \<open>One connection at a time\<close>

lemma handle_one_request_clock:
  "clock s \<le> clock (snd (handle_one_request (MockHandler static others) s cmd path))"
proof (cases "cmd = ''GET''")
  case True
  then show ?thesis
    by (simp add: handle_one_request_def MockHandler_def do_GET_clock)
next
  case False
  then show ?thesis
    by (cases "others (''do_'' @ cmd)")
      (simp_all add: handle_one_request_def MockHandler_def SimpleHTTPRequestHandler_def)
qed

text \<open>
  A connection that is accepted after a GET of a path of the slow scenario is answered
  no earlier than 120 seconds after that GET was accepted, whenever it arrived.
\<close>

lemma serve_forever_after_slow:
  assumes "\<not> contains ''/404'' p" and "\<not> contains ''/500'' p" and "contains ''/slow'' p"
  shows "max (clock s) t + 120
           \<le> snd (fst (serve_forever (MockHandler static others) s
                 [\<lparr>arrival = t, command = ''GET'', target = p\<rparr>, c]) ! 1)"
proof -
  define accepted where "accepted = s\<lparr>clock := max (clock s) t\<rparr>"
  obtain r s1 where slow: "do_GET static accepted p = (r, s1)"
    by (cases "do_GET static accepted p")
  have woke: "clock s1 = max (clock s) t + 120"
    using do_GET_clock [of static accepted p] slow assms by (simp add: accepted_def)
  define next_accepted where "next_accepted = s1\<lparr>clock := max (clock s1) (arrival c)\<rparr>"
  obtain r2 s2 where second:
    "handle_one_request (MockHandler static others) next_accepted (command c) (target c) = (r2, s2)"
    by (cases "handle_one_request (MockHandler static others) next_accepted (command c) (target c)")
  have "clock next_accepted \<le> clock s2"
    using handle_one_request_clock [of next_accepted static others "command c" "target c"] second
    by simp
  then have late: "max (clock s) t + 120 \<le> clock s2"
    using woke by (simp add: next_accepted_def)
  have "handle_one_request (MockHandler static others) accepted ''GET'' p = (r, s1)"
    using slow by (simp add: handle_one_request_def MockHandler_def)
  then have "snd (fst (serve_forever (MockHandler static others) s
                 [\<lparr>arrival = t, command = ''GET'', target = p\<rparr>, c]) ! 1) = clock s2"
    using second by (simp add: accepted_def next_accepted_def)
  then show ?thesis
    using late by simp
qed

text \<open>
  C2 on the code. A GET of \<^verbatim>\<open>/slow\<close> arrives at second 0 and a GET of
  \<^verbatim>\<open>/small-file\<close> on another connection at second 1: the second request is
  answered at second 120, when the first handler has returned, not while it sleeps.
\<close>

theorem slow_request_delays_small_file:
  "fst (serve_forever (MockHandler (static_files Map.empty) Map.empty) (initial_state Map.empty)
     [\<lparr>arrival = 0, command = ''GET'', target = ''/slow''\<rparr>,
      \<lparr>arrival = 1, command = ''GET'', target = ''/small-file''\<rparr>])
   = [(Response 200 [] [], 120),
      (Response 200 [(''Content-Type'', ''application/octet-stream'')] ''too small'', 120)]"
  by (simp add: handle_one_request_def MockHandler_def do_GET_def fail_then_ok_def sleep_def
      send_response_def log_message_def truthy_def initial_state_def)

end
